theory Spec2Isabelle
  imports
    Main
    "HOL-Library.Char_ord"
    "HOL-Library.List_Lexorder"
    "HOL-Library.Product_Lexorder"
    "HOL-Library.Sublist"
    "HOL-Library.Multiset"
begin

section \<open>Python values used by the todo application\<close>

text \<open>
  Strings are modelled as \<open>string\<close> and stand for ASCII text: one \<open>char\<close> is one
  code point below 128. On such text \<open>str.strip()\<close> removes the ASCII white space of
  \<open>str.isspace\<close> and \<open>str.casefold()\<close> maps \<open>A\<close>-\<open>Z\<close> to \<open>a\<close>-\<open>z\<close>. Strings are
  compared as Python compares them: lexicographically, code point by code point.
\<close>

definition is_space :: "char \<Rightarrow> bool" where
  "is_space c = (let n = (of_char c :: nat) in (9 \<le> n \<and> n \<le> 13) \<or> (28 \<le> n \<and> n \<le> 32))"

definition strip :: "string \<Rightarrow> string" where
  "strip s = rev (dropWhile is_space (rev (dropWhile is_space s)))"

definition casefold_char :: "char \<Rightarrow> char" where
  "casefold_char c =
     (let n = (of_char c :: nat) in if 65 \<le> n \<and> n \<le> 90 then char_of (n + 32) else c)"

definition casefold :: "string \<Rightarrow> string" where
  "casefold s = map casefold_char s"

text \<open>\<open>needle in haystack\<close> on strings: the needle occurs as a contiguous run.\<close>

fun str_contains :: "string \<Rightarrow> string \<Rightarrow> bool" where
  "str_contains needle [] = (needle = [])"
| "str_contains needle (c # cs) = (prefix needle (c # cs) \<or> str_contains needle cs)"

text \<open>
  Exceptions are values. The message keeps the fixed text of the source's message; the
  parts formatted in from the input are left out.
\<close>

datatype error =
  ValidationError string | ValueError string | OverflowError string | NameError string

section \<open>models.py\<close>

datatype Priority = HIGH | MEDIUM | LOW

datatype Recurrence = NONE | DAILY | WEEKLY | MONTHLY

text \<open>
  A due date is a \<open>datetime\<close> at midnight and is kept as its calendar fields. The
  creation time \<open>datetime.now()\<close> is a point on the time line; only its order is used.
\<close>

record datetime =
  year :: int
  month :: int
  day :: int

record Task =
  id_t :: int
  title :: string
  description :: string
  is_completed :: bool
  created_at :: int
  priority :: Priority
  category :: "string option"
  due_date :: "datetime option"
  recurrence :: Recurrence
  parent_task_id :: "int option"

section \<open>storage.py\<close>

record TaskStorage =
  tasks :: "Task list"
  next_id :: int

definition init_storage :: TaskStorage where
  "init_storage = \<lparr>tasks = [], next_id = 1\<rparr>"

definition generate_id :: "TaskStorage \<Rightarrow> int \<times> TaskStorage" where
  "generate_id st = (let current_id = next_id st in (current_id, st\<lparr>next_id := next_id st + 1\<rparr>))"

definition add :: "Task \<Rightarrow> TaskStorage \<Rightarrow> Task \<times> TaskStorage" where
  "add task st =
     (case generate_id st of (i, st') \<Rightarrow>
        (let task' = task\<lparr>id_t := i\<rparr> in (task', st'\<lparr>tasks := tasks st' @ [task']\<rparr>)))"

definition get_all :: "TaskStorage \<Rightarrow> Task list" where
  "get_all st = tasks st"

fun find_by_id :: "int \<Rightarrow> Task list \<Rightarrow> Task option" where
  "find_by_id task_id [] = None"
| "find_by_id task_id (task # rest) =
     (if id_t task = task_id then Some task else find_by_id task_id rest)"

definition get_by_id :: "int \<Rightarrow> TaskStorage \<Rightarrow> Task option" where
  "get_by_id task_id st = find_by_id task_id (tasks st)"

fun replace_first :: "Task \<Rightarrow> Task list \<Rightarrow> bool \<times> Task list" where
  "replace_first task [] = (False, [])"
| "replace_first task (existing_task # rest) =
     (if id_t existing_task = id_t task then (True, task # rest)
      else (case replace_first task rest of (found, rest') \<Rightarrow> (found, existing_task # rest')))"

definition update :: "Task \<Rightarrow> TaskStorage \<Rightarrow> bool \<times> TaskStorage" where
  "update task st =
     (case replace_first task (tasks st) of (found, ts) \<Rightarrow> (found, st\<lparr>tasks := ts\<rparr>))"

fun pop_first :: "int \<Rightarrow> Task list \<Rightarrow> bool \<times> Task list" where
  "pop_first task_id [] = (False, [])"
| "pop_first task_id (task # rest) =
     (if id_t task = task_id then (True, rest)
      else (case pop_first task_id rest of (found, rest') \<Rightarrow> (found, task # rest')))"

definition delete :: "int \<Rightarrow> TaskStorage \<Rightarrow> bool \<times> TaskStorage" where
  "delete task_id st =
     (case pop_first task_id (tasks st) of (found, ts) \<Rightarrow> (found, st\<lparr>tasks := ts\<rparr>))"

text \<open>
  A run of the storage: a sequence of \<open>add\<close> and \<open>delete\<close> calls on one instance.
  \<open>assigned_ids\<close> collects, in call order, the id each \<open>add\<close> gave out.
\<close>

datatype storage_op = Add Task | Delete int

fun assigned_ids :: "storage_op list \<Rightarrow> TaskStorage \<Rightarrow> int list" where
  "assigned_ids [] st = []"
| "assigned_ids (Add task # ops) st =
     (case add task st of (task', st') \<Rightarrow> id_t task' # assigned_ids ops st')"
| "assigned_ids (Delete task_id # ops) st = assigned_ids ops (snd (delete task_id st))"

section \<open>The datetime type of the standard library\<close>

text \<open>
  \<open>datetime(year, month, day)\<close> checks its fields in this order and raises
  \<open>ValueError\<close>; the years run from 1 to 9999. Adding or subtracting a
  \<open>timedelta\<close> of whole days moves along the proleptic Gregorian calendar and raises
  \<open>OverflowError\<close> when the result leaves that range.
\<close>

definition is_leap :: "int \<Rightarrow> bool" where
  "is_leap y = (y mod 4 = 0 \<and> (y mod 100 \<noteq> 0 \<or> y mod 400 = 0))"

definition days_in_month :: "int \<Rightarrow> int \<Rightarrow> int" where
  "days_in_month y m =
     (if m = 2 then (if is_leap y then 29 else 28)
      else if m = 4 \<or> m = 6 \<or> m = 9 \<or> m = 11 then 30 else 31)"

definition valid_date :: "datetime \<Rightarrow> bool" where
  "valid_date d =
     (1 \<le> year d \<and> year d \<le> 9999 \<and> 1 \<le> month d \<and> month d \<le> 12
      \<and> 1 \<le> day d \<and> day d \<le> days_in_month (year d) (month d))"

definition datetime_new :: "int \<Rightarrow> int \<Rightarrow> int \<Rightarrow> error + datetime" where
  "datetime_new y m d =
     (if y < 1 \<or> 9999 < y then Inl (ValueError ''year is out of range'')
      else if m < 1 \<or> 12 < m then Inl (ValueError ''month must be in 1..12'')
      else if d < 1 \<or> days_in_month y m < d then Inl (ValueError ''day is out of range for month'')
      else Inr \<lparr>year = y, month = m, day = d\<rparr>)"

definition next_day :: "datetime \<Rightarrow> error + datetime" where
  "next_day d =
     (if day d < days_in_month (year d) (month d) then Inr (d\<lparr>day := day d + 1\<rparr>)
      else if month d < 12 then Inr \<lparr>year = year d, month = month d + 1, day = 1\<rparr>
      else if year d < 9999 then Inr \<lparr>year = year d + 1, month = 1, day = 1\<rparr>
      else Inl (OverflowError ''date value out of range''))"

definition prev_day :: "datetime \<Rightarrow> error + datetime" where
  "prev_day d =
     (if 1 < day d then Inr (d\<lparr>day := day d - 1\<rparr>)
      else if 1 < month d
        then Inr \<lparr>year = year d, month = month d - 1,
                  day = days_in_month (year d) (month d - 1)\<rparr>
      else if 1 < year d then Inr \<lparr>year = year d - 1, month = 12, day = 31\<rparr>
      else Inl (OverflowError ''date value out of range''))"

text \<open>\<open>d + timedelta(days=n)\<close> and \<open>d - timedelta(days=n)\<close>.\<close>

fun plus_days :: "datetime \<Rightarrow> nat \<Rightarrow> error + datetime" where
  "plus_days d 0 = Inr d"
| "plus_days d (Suc n) = (case next_day d of Inl e \<Rightarrow> Inl e | Inr d' \<Rightarrow> plus_days d' n)"

fun minus_days :: "datetime \<Rightarrow> nat \<Rightarrow> error + datetime" where
  "minus_days d 0 = Inr d"
| "minus_days d (Suc n) = (case prev_day d of Inl e \<Rightarrow> Inl e | Inr d' \<Rightarrow> minus_days d' n)"

text \<open>
  \<open>toordinal\<close>: the day number of a date, 0001-01-01 being day 1. It is what the
  theorems below use to say "one day later".
\<close>

definition days_before_year :: "int \<Rightarrow> int" where
  "days_before_year y = (y - 1) * 365 + (y - 1) div 4 - (y - 1) div 100 + (y - 1) div 400"

definition days_before_month :: "int \<Rightarrow> int \<Rightarrow> int" where
  "days_before_month y m = sum_list (map (days_in_month y) [1 .. m - 1])"

definition toordinal :: "datetime \<Rightarrow> int" where
  "toordinal d = days_before_year (year d) + days_before_month (year d) (month d) + day d"

definition MAXORDINAL :: int where
  "MAXORDINAL = 3652059"

section \<open>models.py: recurrence\<close>

definition calculate_next_due_date :: "datetime \<Rightarrow> Recurrence \<Rightarrow> error + datetime" where
  "calculate_next_due_date current_date rec =
     (case rec of
        NONE \<Rightarrow> Inl (ValueError ''Cannot calculate next date for non-recurring task'')
      | DAILY \<Rightarrow> plus_days current_date 1
      | WEEKLY \<Rightarrow> plus_days current_date 7
      | MONTHLY \<Rightarrow>
          (let y0 = year current_date;
               m0 = month current_date + 1;
               m = (if 12 < m0 then 1 else m0);
               y = (if 12 < m0 then y0 + 1 else y0);
               d = day current_date
           in case datetime_new y (m + 1) 1 of
                Inl e \<Rightarrow> Inl e
              | Inr first_of_following \<Rightarrow>
                  (case minus_days first_of_following 1 of
                     Inl e \<Rightarrow> Inl e
                   | Inr last_date \<Rightarrow> datetime_new y m (min d (day last_date)))))"

text \<open>
  Every \<open>Task\<close> of this model has all its fields, so the \<open>hasattr\<close> tests of
  \<open>ensure_task_compatibility\<close> find nothing to add.
\<close>

definition ensure_task_compatibility :: "Task \<Rightarrow> Task" where
  "ensure_task_compatibility task = task"

section \<open>services.py: validation\<close>

definition validate_title :: "string \<Rightarrow> error + string" where
  "validate_title title' =
     (let cleaned = strip title' in
      if cleaned = [] then Inl (ValidationError ''Title cannot be empty'')
      else if 100 < length cleaned then Inl (ValidationError ''Title must be 100 characters or less'')
      else Inr cleaned)"

definition validate_description :: "string \<Rightarrow> error + string" where
  "validate_description description' =
     (let cleaned = strip description' in
      if 500 < length cleaned
        then Inl (ValidationError ''Description must be 500 characters or less'')
      else Inr cleaned)"

fun priority_value :: "Priority \<Rightarrow> string" where
  "priority_value HIGH = ''high''"
| "priority_value MEDIUM = ''medium''"
| "priority_value LOW = ''low''"

definition validate_priority :: "string \<Rightarrow> error + Priority" where
  "validate_priority priority_str =
     (let cleaned = casefold (strip priority_str) in
      case find (\<lambda>p. priority_value p = cleaned) [HIGH, MEDIUM, LOW] of
        Some p \<Rightarrow> Inr p
      | None \<Rightarrow> Inl (ValidationError ''Invalid priority''))"

definition validate_category :: "string \<Rightarrow> error + string option" where
  "validate_category category_str =
     (let cleaned = strip category_str in
      if cleaned = [] then Inr None
      else if 50 < length cleaned
        then Inl (ValidationError ''Category must be 50 characters or less'')
      else Inr (Some cleaned))"

text \<open>
  \<open>int(s)\<close> on ASCII text: white space around the number is dropped, one sign may lead,
  and single underscores may stand between digits. The white space \<open>int\<close> drops is
  tab, line feed, vertical tab, form feed, carriage return and space only; the separators
  with code points 28 to 31, which \<open>str.strip()\<close> removes, are not part of it.
\<close>

definition is_int_space :: "char \<Rightarrow> bool" where
  "is_int_space c = (let n = (of_char c :: nat) in (9 \<le> n \<and> n \<le> 13) \<or> n = 32)"

definition strip_int :: "string \<Rightarrow> string" where
  "strip_int s = rev (dropWhile is_int_space (rev (dropWhile is_int_space s)))"

definition is_digit :: "char \<Rightarrow> bool" where
  "is_digit c = (let n = (of_char c :: nat) in 48 \<le> n \<and> n \<le> 57)"

definition digit_value :: "char \<Rightarrow> nat" where
  "digit_value c = of_char c - 48"

fun parse_digits :: "nat \<Rightarrow> string \<Rightarrow> nat option" where
  "parse_digits acc [] = Some acc"
| "parse_digits acc [c] = (if is_digit c then Some (10 * acc + digit_value c) else None)"
| "parse_digits acc (c # c' # cs) =
     (if is_digit c then parse_digits (10 * acc + digit_value c) (c' # cs)
      else if c = CHR ''_'' \<and> is_digit c' then parse_digits (10 * acc + digit_value c') cs
      else None)"

definition parse_unsigned :: "string \<Rightarrow> nat option" where
  "parse_unsigned s =
     (case s of [] \<Rightarrow> None
      | c # cs \<Rightarrow> if is_digit c then parse_digits (digit_value c) cs else None)"

definition py_int :: "string \<Rightarrow> int option" where
  "py_int s =
     (case strip_int s of
        [] \<Rightarrow> None
      | c # cs \<Rightarrow>
          if c = CHR ''-'' then map_option (\<lambda>n. - int n) (parse_unsigned cs)
          else if c = CHR ''+'' then map_option int (parse_unsigned cs)
          else map_option int (parse_unsigned (c # cs)))"

text \<open>
  Every failure of \<open>validate_due_date\<close>, its own or one of \<open>int\<close> or \<open>datetime\<close>
  caught and raised again, is a \<open>ValueError\<close>.
\<close>

definition validate_due_date :: "string \<Rightarrow> error + datetime option" where
  "validate_due_date date_str =
     (let cleaned = strip date_str in
      if cleaned = [] then Inr None
      else if length cleaned \<noteq> 10 \<or> cleaned ! 4 \<noteq> CHR ''-'' \<or> cleaned ! 7 \<noteq> CHR ''-''
        then Inl (ValueError ''Invalid date format. Use YYYY-MM-DD.'')
      else
        (case (py_int (take 4 cleaned), py_int (take 2 (drop 5 cleaned)),
               py_int (take 2 (drop 8 cleaned))) of
           (Some y, Some m, Some d) \<Rightarrow>
             if m < 1 \<or> 12 < m then Inl (ValueError ''Invalid date'')
             else if d < 1 \<or> 31 < d then Inl (ValueError ''Invalid date'')
             else (case datetime_new y m d of
                     Inl e \<Rightarrow> Inl (ValueError ''Invalid date'')
                   | Inr due \<Rightarrow> Inr (Some due))
         | _ \<Rightarrow> Inl (ValueError ''Invalid date'')))"

fun recurrence_value :: "Recurrence \<Rightarrow> string" where
  "recurrence_value NONE = ''none''"
| "recurrence_value DAILY = ''daily''"
| "recurrence_value WEEKLY = ''weekly''"
| "recurrence_value MONTHLY = ''monthly''"

definition validate_recurrence :: "string \<Rightarrow> error + Recurrence" where
  "validate_recurrence recurrence_str =
     (let cleaned = casefold (strip recurrence_str) in
      case find (\<lambda>r. recurrence_value r = cleaned) [NONE, DAILY, WEEKLY, MONTHLY] of
        Some r \<Rightarrow> Inr r
      | None \<Rightarrow> Inl (ValueError ''Invalid recurrence''))"

section \<open>services.py: the task service\<close>

record FilterState =
  status :: "bool option"
  priority_f :: "Priority option"
  category_f :: "string option"

record TaskService =
  storage :: TaskStorage
  filters :: FilterState

definition init_service :: TaskService where
  "init_service =
     \<lparr>storage = init_storage, filters = \<lparr>status = None, priority_f = None, category_f = None\<rparr>\<rparr>"

text \<open>\<open>now\<close> is the value \<open>datetime.now()\<close> returns during the call.\<close>

definition add_task ::
  "int \<Rightarrow> string \<Rightarrow> string \<Rightarrow> string \<Rightarrow> string \<Rightarrow> string \<Rightarrow> string \<Rightarrow> TaskService
     \<Rightarrow> (error + Task) \<times> TaskService" where
  "add_task now title' description' priority_str category_str due_date_str recurrence_str svc =
     (case validate_title title' of Inl e \<Rightarrow> (Inl e, svc) | Inr clean_title \<Rightarrow>
      case validate_description description' of Inl e \<Rightarrow> (Inl e, svc) | Inr clean_description \<Rightarrow>
      case validate_priority priority_str of Inl e \<Rightarrow> (Inl e, svc) | Inr clean_priority \<Rightarrow>
      case validate_category category_str of Inl e \<Rightarrow> (Inl e, svc) | Inr clean_category \<Rightarrow>
      case validate_due_date due_date_str of Inl e \<Rightarrow> (Inl e, svc) | Inr clean_due_date \<Rightarrow>
      case validate_recurrence recurrence_str of Inl e \<Rightarrow> (Inl e, svc) | Inr clean_recurrence \<Rightarrow>
      case add \<lparr>id_t = 0, title = clean_title, description = clean_description,
                is_completed = False, created_at = now, priority = clean_priority,
                category = clean_category, due_date = clean_due_date,
                recurrence = clean_recurrence, parent_task_id = None\<rparr> (storage svc) of
        (task, st') \<Rightarrow> (Inr task, svc\<lparr>storage := st'\<rparr>))"

text \<open>\<open>sorted(tasks, key=...)\<close> is a stable sort by the key, as \<open>sort_key\<close> is.\<close>

definition get_all_tasks :: "TaskService \<Rightarrow> Task list" where
  "get_all_tasks svc = sort_key id_t (map ensure_task_compatibility (get_all (storage svc)))"

text \<open>
  The task \<open>get_by_id\<close> returns is the object the storage list holds, so an
  assignment to one of its fields shows in the storage at once, before any call of
  \<open>update\<close>. \<open>mutate task'\<close> is that effect: the object found under the id of
  \<open>task'\<close> (the first with that id) now has the fields of \<open>task'\<close>.
\<close>

definition mutate :: "Task \<Rightarrow> TaskStorage \<Rightarrow> TaskStorage" where
  "mutate task' st = st\<lparr>tasks := snd (replace_first task' (tasks st))\<rparr>"

text \<open>
  One field of \<open>update_task\<close>: nothing when the argument is \<open>None\<close>, else validate and
  assign. The result carries the exception, if one is raised, and the state of the task
  object at that moment.
\<close>

definition set_title :: "string option \<Rightarrow> Task \<Rightarrow> error option \<times> Task" where
  "set_title title' task =
     (case title' of None \<Rightarrow> (None, task)
      | Some s \<Rightarrow> (case validate_title s of
                     Inl e \<Rightarrow> (Some e, task)
                   | Inr v \<Rightarrow> (None, task\<lparr>title := v\<rparr>)))"

definition set_description :: "string option \<Rightarrow> Task \<Rightarrow> error option \<times> Task" where
  "set_description description' task =
     (case description' of None \<Rightarrow> (None, task)
      | Some s \<Rightarrow> (case validate_description s of
                     Inl e \<Rightarrow> (Some e, task)
                   | Inr v \<Rightarrow> (None, task\<lparr>description := v\<rparr>)))"

definition set_priority :: "string option \<Rightarrow> Task \<Rightarrow> error option \<times> Task" where
  "set_priority priority_str task =
     (case priority_str of None \<Rightarrow> (None, task)
      | Some s \<Rightarrow> (case validate_priority s of
                     Inl e \<Rightarrow> (Some e, task)
                   | Inr v \<Rightarrow> (None, task\<lparr>priority := v\<rparr>)))"

definition set_category :: "string option \<Rightarrow> Task \<Rightarrow> error option \<times> Task" where
  "set_category category_str task =
     (case category_str of None \<Rightarrow> (None, task)
      | Some s \<Rightarrow> (case validate_category s of
                     Inl e \<Rightarrow> (Some e, task)
                   | Inr v \<Rightarrow> (None, task\<lparr>category := v\<rparr>)))"

definition set_due_date :: "string option \<Rightarrow> Task \<Rightarrow> error option \<times> Task" where
  "set_due_date due_date_str task =
     (case due_date_str of None \<Rightarrow> (None, task)
      | Some s \<Rightarrow>
          if strip s = [] then (None, task\<lparr>due_date := None\<rparr>)
          else (case validate_due_date s of
                  Inl e \<Rightarrow> (Some e, task)
                | Inr v \<Rightarrow> (None, task\<lparr>due_date := v\<rparr>)))"

definition set_recurrence :: "string option \<Rightarrow> Task \<Rightarrow> error option \<times> Task" where
  "set_recurrence recurrence_str task =
     (case recurrence_str of None \<Rightarrow> (None, task)
      | Some s \<Rightarrow> (case validate_recurrence s of
                     Inl e \<Rightarrow> (Some e, task)
                   | Inr v \<Rightarrow> (None, task\<lparr>recurrence := v\<rparr>)))"

definition and_then ::
  "error option \<times> Task \<Rightarrow> (Task \<Rightarrow> error option \<times> Task) \<Rightarrow> error option \<times> Task" where
  "and_then r f = (case r of (Some e, task) \<Rightarrow> (Some e, task) | (None, task) \<Rightarrow> f task)"

definition update_fields ::
  "string option \<Rightarrow> string option \<Rightarrow> string option \<Rightarrow> string option \<Rightarrow> string option
     \<Rightarrow> string option \<Rightarrow> Task \<Rightarrow> error option \<times> Task" where
  "update_fields title' description' priority_str category_str due_date_str recurrence_str task =
     and_then (and_then (and_then (and_then (and_then
       (set_title title' task)
       (set_description description'))
       (set_priority priority_str))
       (set_category category_str))
       (set_due_date due_date_str))
       (set_recurrence recurrence_str)"

definition update_task ::
  "int \<Rightarrow> string option \<Rightarrow> string option \<Rightarrow> string option \<Rightarrow> string option \<Rightarrow> string option
     \<Rightarrow> string option \<Rightarrow> TaskService \<Rightarrow> (error + Task option) \<times> TaskService" where
  "update_task task_id title' description' priority_str category_str due_date_str
       recurrence_str svc =
     (case get_by_id task_id (storage svc) of
        None \<Rightarrow> (Inr None, svc)
      | Some task \<Rightarrow>
          (case update_fields title' description' priority_str category_str due_date_str
                  recurrence_str (ensure_task_compatibility task) of
             (Some e, task') \<Rightarrow> (Inl e, svc\<lparr>storage := mutate task' (storage svc)\<rparr>)
           | (None, task') \<Rightarrow>
               (Inr (Some task'),
                svc\<lparr>storage := snd (update task' (mutate task' (storage svc)))\<rparr>)))"

definition delete_task :: "int \<Rightarrow> TaskService \<Rightarrow> bool \<times> TaskService" where
  "delete_task task_id svc =
     (case delete task_id (storage svc) of (found, st') \<Rightarrow> (found, svc\<lparr>storage := st'\<rparr>))"

text \<open>
  The names \<open>services.py\<close> takes from \<open>todo.models\<close>, as its import statement lists
  them. The module binds no other name to the function \<open>calculate_next_due_date\<close> of
  \<open>models.py\<close>, so a call of that name inside \<open>services.py\<close> is looked up among the
  module's globals when it is reached and, the name being absent, raises \<open>NameError\<close>
  before the function runs.
\<close>

definition imported_from_models :: "string list" where
  "imported_from_models =
     [''Task'', ''Priority'', ''Recurrence'', ''ensure_task_compatibility'',
      ''format_due_date'', ''is_overdue'']"

definition call_calculate_next_due_date :: "datetime \<Rightarrow> Recurrence \<Rightarrow> error + datetime" where
  "call_calculate_next_due_date current_date rec =
     (if ''calculate_next_due_date'' \<in> set imported_from_models
      then calculate_next_due_date current_date rec
      else Inl (NameError ''name calculate_next_due_date is not defined''))"

definition toggle_task ::
  "int \<Rightarrow> int \<Rightarrow> TaskService \<Rightarrow> (error + Task option \<times> Task option) \<times> TaskService" where
  "toggle_task now task_id svc =
     (case get_by_id task_id (storage svc) of
        None \<Rightarrow> (Inr (None, None), svc)
      | Some found \<Rightarrow>
          (let task = ensure_task_compatibility found;
               is_completing = (\<not> is_completed task);
               task' = task\<lparr>is_completed := \<not> is_completed task\<rparr>
           in case (if is_completing \<and> recurrence task \<noteq> NONE then due_date task else None) of
                None \<Rightarrow>
                  (Inr (Some task', None),
                   svc\<lparr>storage := snd (update task' (mutate task' (storage svc)))\<rparr>)
              | Some due \<Rightarrow>
                  (case call_calculate_next_due_date due (recurrence task) of
                     Inl e \<Rightarrow> (Inl e, svc)
                   | Inr next_due_date \<Rightarrow>
                       (case add \<lparr>id_t = 0, title = title task, description = description task,
                                  is_completed = False, created_at = now,
                                  priority = priority task, category = category task,
                                  due_date = Some next_due_date, recurrence = recurrence task,
                                  parent_task_id = Some (id_t task)\<rparr> (storage svc) of
                          (next_task, st1) \<Rightarrow>
                            (Inr (Some task', Some next_task),
                             svc\<lparr>storage := snd (update task' (mutate task' st1))\<rparr>)))))"

definition search_tasks :: "string \<Rightarrow> TaskService \<Rightarrow> error + Task list" where
  "search_tasks keyword svc =
     (let cleaned = strip keyword in
      if cleaned = [] then Inl (ValidationError ''Keyword cannot be empty'')
      else
        (let keyword_lower = casefold cleaned in
         Inr (filter (\<lambda>task. str_contains keyword_lower (casefold (title task))
                            \<or> str_contains keyword_lower (casefold (description task)))
                (map ensure_task_compatibility (get_all_tasks svc)))))"

text \<open>
  In \<open>t.category and category_lower in t.category.casefold()\<close> a category that is
  \<open>None\<close> or the empty string is false, and the task is dropped.
\<close>

definition filter_tasks :: "TaskService \<Rightarrow> Task list" where
  "filter_tasks svc =
     (let filtered = get_all_tasks svc;
          filtered = (case status (filters svc) of None \<Rightarrow> filtered
                      | Some b \<Rightarrow> filter (\<lambda>t. is_completed t = b) filtered);
          filtered = (case priority_f (filters svc) of None \<Rightarrow> filtered
                      | Some p \<Rightarrow> filter (\<lambda>t. priority t = p) filtered);
          filtered = (case category_f (filters svc) of None \<Rightarrow> filtered
                      | Some c \<Rightarrow>
                          (let category_lower = casefold c in
                           filter (\<lambda>t. case category t of None \<Rightarrow> False
                                        | Some tc \<Rightarrow> tc \<noteq> [] \<and> str_contains category_lower (casefold tc))
                             filtered))
      in filtered)"

definition set_filter_status :: "string \<Rightarrow> TaskService \<Rightarrow> TaskService" where
  "set_filter_status status' svc =
     (let status_lower = casefold (strip status') in
      if status_lower = ''all'' then svc\<lparr>filters := (filters svc)\<lparr>status := None\<rparr>\<rparr>
      else if status_lower = ''pending'' then svc\<lparr>filters := (filters svc)\<lparr>status := Some False\<rparr>\<rparr>
      else if status_lower = ''completed'' then svc\<lparr>filters := (filters svc)\<lparr>status := Some True\<rparr>\<rparr>
      else svc)"

definition set_filter_priority :: "Priority option \<Rightarrow> TaskService \<Rightarrow> TaskService" where
  "set_filter_priority p svc = svc\<lparr>filters := (filters svc)\<lparr>priority_f := p\<rparr>\<rparr>"

definition set_filter_category :: "string \<Rightarrow> TaskService \<Rightarrow> TaskService" where
  "set_filter_category category' svc =
     (let cleaned = strip category' in
      svc\<lparr>filters := (filters svc)\<lparr>category_f := (if cleaned = [] then None else Some cleaned)\<rparr>\<rparr>)"

fun PRIORITY_ORDER :: "Priority \<Rightarrow> int" where
  "PRIORITY_ORDER HIGH = 3"
| "PRIORITY_ORDER MEDIUM = 2"
| "PRIORITY_ORDER LOW = 1"

text \<open>
  \<open>sorted(..., reverse=True)\<close> sorts descending and still keeps elements with equal
  keys in their original order.
\<close>

definition sort_by_priority :: "Task list \<Rightarrow> Task list" where
  "sort_by_priority ts = rev (sort_key (\<lambda>t. (PRIORITY_ORDER (priority t), created_at t)) (rev ts))"

definition sort_alphabetically :: "Task list \<Rightarrow> Task list" where
  "sort_alphabetically ts = sort_key (\<lambda>t. (casefold (title t), created_at t)) ts"

section \<open>Concrete states\<close>

text \<open>States the service can be in, used to run the definitions on.\<close>

definition sample_task :: Task where
  "sample_task = \<lparr>id_t = 1, title = ''Buy milk'', description = ''two litres'',
     is_completed = False, created_at = 10, priority = MEDIUM, category = Some ''Home'',
     due_date = Some \<lparr>year = 2025, month = 1, day = 31\<rparr>, recurrence = DAILY,
     parent_task_id = None\<rparr>"

definition sample_service :: TaskService where
  "sample_service = \<lparr>storage = \<lparr>tasks = [sample_task], next_id = 2\<rparr>,
     filters = \<lparr>status = None, priority_f = None, category_f = None\<rparr>\<rparr>"

definition t_old :: Task where
  "t_old = \<lparr>id_t = 1, title = ''Report'', description = [],
     is_completed = False, created_at = 100, priority = MEDIUM, category = None,
     due_date = None, recurrence = NONE, parent_task_id = None\<rparr>"

definition t_new :: Task where
  "t_new = \<lparr>id_t = 2, title = ''report'', description = [],
     is_completed = False, created_at = 200, priority = MEDIUM, category = None,
     due_date = None, recurrence = NONE, parent_task_id = None\<rparr>"

definition november_task :: Task where
  "november_task = \<lparr>id_t = 1, title = ''Pay rent'', description = [],
     is_completed = False, created_at = 10, priority = HIGH, category = None,
     due_date = Some \<lparr>year = 2025, month = 11, day = 15\<rparr>, recurrence = MONTHLY,
     parent_task_id = None\<rparr>"

definition november_service :: TaskService where
  "november_service = \<lparr>storage = \<lparr>tasks = [november_task], next_id = 2\<rparr>,
     filters = \<lparr>status = None, priority_f = None, category_f = None\<rparr>\<rparr>"

definition work_task :: Task where
  "work_task = \<lparr>id_t = 1, title = ''Send report'', description = [],
     is_completed = False, created_at = 10, priority = HIGH, category = Some ''Work'',
     due_date = None, recurrence = NONE, parent_task_id = None\<rparr>"

definition personal_task :: Task where
  "personal_task = \<lparr>id_t = 2, title = ''Call home'', description = [],
     is_completed = False, created_at = 11, priority = HIGH, category = Some ''Personal'',
     due_date = None, recurrence = NONE, parent_task_id = None\<rparr>"

definition homework_task :: Task where
  "homework_task = \<lparr>id_t = 3, title = ''Essay'', description = [],
     is_completed = False, created_at = 12, priority = LOW, category = Some ''Homework'',
     due_date = None, recurrence = NONE, parent_task_id = None\<rparr>"

definition work_service :: TaskService where
  "work_service = \<lparr>storage = \<lparr>tasks = [homework_task, personal_task, work_task], next_id = 4\<rparr>,
     filters = \<lparr>status = None, priority_f = Some HIGH, category_f = Some ''work''\<rparr>\<rparr>"

section \<open>What a call of update_task asks for\<close>

text \<open>
  For one argument of \<open>update_task\<close>: whether its validation fails, and the value the
  field has once the argument has been handled (an argument that is \<open>None\<close> or fails
  leaves the old value).
\<close>

definition title_fails :: "string option \<Rightarrow> bool" where
  "title_fails a = (case a of None \<Rightarrow> False | Some s \<Rightarrow> isl (validate_title s))"

definition description_fails :: "string option \<Rightarrow> bool" where
  "description_fails a = (case a of None \<Rightarrow> False | Some s \<Rightarrow> isl (validate_description s))"

definition priority_fails :: "string option \<Rightarrow> bool" where
  "priority_fails a = (case a of None \<Rightarrow> False | Some s \<Rightarrow> isl (validate_priority s))"

definition category_fails :: "string option \<Rightarrow> bool" where
  "category_fails a = (case a of None \<Rightarrow> False | Some s \<Rightarrow> isl (validate_category s))"

definition due_date_fails :: "string option \<Rightarrow> bool" where
  "due_date_fails a =
     (case a of None \<Rightarrow> False | Some s \<Rightarrow> strip s \<noteq> [] \<and> isl (validate_due_date s))"

definition recurrence_fails :: "string option \<Rightarrow> bool" where
  "recurrence_fails a = (case a of None \<Rightarrow> False | Some s \<Rightarrow> isl (validate_recurrence s))"

definition new_title :: "string option \<Rightarrow> string \<Rightarrow> string" where
  "new_title a old =
     (case a of None \<Rightarrow> old
      | Some s \<Rightarrow> (case validate_title s of Inl e \<Rightarrow> old | Inr v \<Rightarrow> v))"

definition new_description :: "string option \<Rightarrow> string \<Rightarrow> string" where
  "new_description a old =
     (case a of None \<Rightarrow> old
      | Some s \<Rightarrow> (case validate_description s of Inl e \<Rightarrow> old | Inr v \<Rightarrow> v))"

definition new_priority :: "string option \<Rightarrow> Priority \<Rightarrow> Priority" where
  "new_priority a old =
     (case a of None \<Rightarrow> old
      | Some s \<Rightarrow> (case validate_priority s of Inl e \<Rightarrow> old | Inr v \<Rightarrow> v))"

definition new_category :: "string option \<Rightarrow> string option \<Rightarrow> string option" where
  "new_category a old =
     (case a of None \<Rightarrow> old
      | Some s \<Rightarrow> (case validate_category s of Inl e \<Rightarrow> old | Inr v \<Rightarrow> v))"

definition new_due_date :: "string option \<Rightarrow> datetime option \<Rightarrow> datetime option" where
  "new_due_date a old =
     (case a of None \<Rightarrow> old
      | Some s \<Rightarrow>
          if strip s = [] then None
          else (case validate_due_date s of Inl e \<Rightarrow> old | Inr v \<Rightarrow> v))"

definition new_recurrence :: "string option \<Rightarrow> Recurrence \<Rightarrow> Recurrence" where
  "new_recurrence a old =
     (case a of None \<Rightarrow> old
      | Some s \<Rightarrow> (case validate_recurrence s of Inl e \<Rightarrow> old | Inr v \<Rightarrow> v))"

section \<open>Storage: identifiers\<close>

lemma next_id_add: "next_id (snd (add task st)) = next_id st + 1"
  by (simp add: add_def generate_id_def Let_def)

lemma id_add: "id_t (fst (add task st)) = next_id st"
  by (simp add: add_def generate_id_def Let_def)

lemma next_id_delete: "next_id (snd (delete task_id st)) = next_id st"
  by (simp add: delete_def split: prod.splits)

lemma assigned_ids_from:
  "assigned_ids ops st = [next_id st .. next_id st + int (length (assigned_ids ops st)) - 1]"
proof (induction ops arbitrary: st)
  case Nil
  show ?case by simp
next
  case (Cons x ops)
  show ?case
  proof (cases x)
    case (Add task)
    obtain task' st' where a: "add task st = (task', st')"
      by (cases "add task st")
    have i: "id_t task' = next_id st" using id_add [of task st] a by simp
    have n: "next_id st' = next_id st + 1" using next_id_add [of task st] a by simp
    let ?r = "assigned_ids ops st'"
    have "?r = [next_id st + 1 .. next_id st + 1 + int (length ?r) - 1]"
      using Cons.IH [of st'] n by simp
    then have "next_id st # ?r = [next_id st .. next_id st + int (length (next_id st # ?r)) - 1]"
      by (subst upto_rec1) (simp_all add: algebra_simps)
    then show ?thesis using Add a i by simp
  next
    case (Delete task_id)
    then show ?thesis
      using Cons.IH [of "snd (delete task_id st)"] by (simp add: next_id_delete)
  qed
qed

lemma sorted_wrt_less_upto: "sorted_wrt (<) [i..j]"
  by (induction i j rule: upto.induct) (subst upto.simps, auto)

text \<open>
  C3. On one storage instance, starting empty, whatever \<open>add\<close> and \<open>delete\<close> calls are
  made: the ids handed out by the \<open>add\<close> calls are 1, 2, 3, ... in call order, so they
  are strictly increasing from 1 and none is handed out twice, whether or not the task
  that held it was deleted in between.
\<close>

theorem add_ids_strictly_increasing_never_reused:
  "assigned_ids ops init_storage = [1 .. int (length (assigned_ids ops init_storage))]
   \<and> sorted_wrt (<) (assigned_ids ops init_storage)
   \<and> distinct (assigned_ids ops init_storage)"
proof -
  let ?ids = "assigned_ids ops init_storage"
  have e: "?ids = [1 .. int (length ?ids)]"
    using assigned_ids_from [of ops init_storage] by (simp add: init_storage_def)
  have s: "sorted_wrt (<) ?ids"
    by (subst e) (rule sorted_wrt_less_upto)
  have d: "distinct ?ids"
    by (subst e) simp
  from e s d show ?thesis by blast
qed

section \<open>Lookup of an absent id\<close>

lemma find_by_id_None: "find_by_id task_id ts = None \<longleftrightarrow> task_id \<notin> id_t ` set ts"
  by (induction ts) auto

text \<open>
  C9. When no stored task has the given id, \<open>toggle_task\<close> returns the pair
  \<open>(None, None)\<close> and the service, with its storage, is exactly what it was.
\<close>

theorem toggle_task_missing_id:
  "task_id \<notin> id_t ` set (tasks (storage svc)) \<Longrightarrow>
   toggle_task now task_id svc = (Inr (None, None), svc)"
  using find_by_id_None [of task_id "tasks (storage svc)"]
  by (simp add: toggle_task_def get_by_id_def)

theorem toggle_task_missing_id_witness:
  "7 \<notin> id_t ` set (tasks (storage sample_service))
   \<and> toggle_task 20 7 sample_service = (Inr (None, None), sample_service)"
proof -
  have h: "7 \<notin> id_t ` set (tasks (storage sample_service))"
    by (simp add: sample_service_def sample_task_def)
  show ?thesis using h toggle_task_missing_id [OF h, of 20] by simp
qed

section \<open>The status filter\<close>

text \<open>
  C10. A status string that, trimmed and case-folded, is none of \<open>all\<close>, \<open>pending\<close>,
  \<open>completed\<close> falls through every branch of \<open>set_filter_status\<close>: nothing is raised
  and the filter state, like the rest of the service, stays as it was.
\<close>

theorem set_filter_status_unrecognised:
  "casefold (strip status') \<notin> {''all'', ''pending'', ''completed''} \<Longrightarrow>
   set_filter_status status' svc = svc"
  by (simp add: set_filter_status_def Let_def)

theorem set_filter_status_unrecognised_witness:
  "casefold (strip '' Done '') \<notin> {''all'', ''pending'', ''completed''}
   \<and> set_filter_status '' Done '' sample_service = sample_service"
proof -
  have c: "casefold (strip '' Done '') = ''done''" by code_simp
  have h: "casefold (strip '' Done '') \<notin> {''all'', ''pending'', ''completed''}"
    unfolding c by simp
  show ?thesis using h set_filter_status_unrecognised [OF h, of sample_service] by simp
qed

section \<open>Search\<close>

lemma str_contains_sublist: "str_contains xs ys \<longleftrightarrow> sublist xs ys"
  by (induction ys) (auto simp: sublist_Cons_right)

lemma map_ensure: "map ensure_task_compatibility ts = ts"
  by (induction ts) (simp_all add: ensure_task_compatibility_def)

lemma sorted_get_all_tasks: "sorted (map id_t (get_all_tasks svc))"
  by (simp add: get_all_tasks_def)

lemma mset_get_all_tasks: "mset (get_all_tasks svc) = mset (tasks (storage svc))"
  by (simp add: get_all_tasks_def get_all_def map_ensure)

text \<open>
  C6. \<open>search_tasks\<close> raises the validation error when the keyword is empty after
  trimming, and only then. Otherwise it returns a list in ascending id order that holds
  exactly the stored tasks (each as often as it is stored) whose case-folded title or
  description contains the trimmed, case-folded keyword as a substring.
\<close>

theorem search_tasks_spec:
  "(strip keyword = [] \<longrightarrow>
      search_tasks keyword svc = Inl (ValidationError ''Keyword cannot be empty''))
   \<and> (strip keyword \<noteq> [] \<longrightarrow>
      (\<exists>res. search_tasks keyword svc = Inr res
         \<and> sorted (map id_t res)
         \<and> mset res =
             filter_mset
               (\<lambda>t. sublist (casefold (strip keyword)) (casefold (title t))
                  \<or> sublist (casefold (strip keyword)) (casefold (description t)))
               (mset (tasks (storage svc)))))"
proof -
  have "sorted (map id_t (filter P (get_all_tasks svc)))" for P
    using sorted_get_all_tasks [of svc] by (rule sorted_filter)
  moreover have "mset (filter P (get_all_tasks svc)) = filter_mset P (mset (tasks (storage svc)))"
    for P
    by (simp add: mset_get_all_tasks)
  ultimately show ?thesis
    by (simp add: search_tasks_def Let_def map_ensure str_contains_sublist)
qed

theorem search_tasks_spec_witness:
  "strip ''   '' = []
   \<and> search_tasks ''   '' sample_service = Inl (ValidationError ''Keyword cannot be empty'')
   \<and> strip '' MILK '' \<noteq> []
   \<and> (\<exists>res. search_tasks '' MILK '' sample_service = Inr res
         \<and> sorted (map id_t res)
         \<and> mset res =
             filter_mset
               (\<lambda>t. sublist (casefold (strip '' MILK '')) (casefold (title t))
                  \<or> sublist (casefold (strip '' MILK '')) (casefold (description t)))
               (mset (tasks (storage sample_service))))"
proof -
  have e: "strip ''   '' = []" by code_simp
  have n: "strip '' MILK '' \<noteq> []" by code_simp
  from e search_tasks_spec [of "''   ''" sample_service]
  have 1: "search_tasks ''   '' sample_service = Inl (ValidationError ''Keyword cannot be empty'')"
    by blast
  from n search_tasks_spec [of "'' MILK ''" sample_service]
  have 2: "\<exists>res. search_tasks '' MILK '' sample_service = Inr res
         \<and> sorted (map id_t res)
         \<and> mset res =
             filter_mset
               (\<lambda>t. sublist (casefold (strip '' MILK '')) (casefold (title t))
                  \<or> sublist (casefold (strip '' MILK '')) (casefold (description t)))
               (mset (tasks (storage sample_service)))"
    by blast
  from e 1 n 2 show ?thesis by blast
qed

lemma search_tasks_milk: "search_tasks ''MILK'' sample_service = Inr [sample_task]"
  by code_simp

section \<open>Alphabetical order\<close>

lemma sort_alphabetically_sorted:
  "sorted (map (\<lambda>t. (casefold (title t), created_at t)) (sort_alphabetically ts))
   \<and> mset (sort_alphabetically ts) = mset ts"
  by (simp add: sort_alphabetically_def)

text \<open>
  C8. The claim asks that tasks with equal case-folded titles come newest first. Run on
  two such tasks, handed over newest first, \<open>sort_alphabetically\<close> returns them oldest
  first: the creation time is the second component of an ascending key.
\<close>

theorem sort_alphabetically_ties_oldest_first:
  "casefold (title t_old) = casefold (title t_new)
   \<and> created_at t_old < created_at t_new
   \<and> sort_alphabetically [t_new, t_old] = [t_old, t_new]"
  by code_simp

lemma sort_by_priority_ties_newest_first:
  "sort_by_priority [t_old, t_new] = [t_new, t_old]"
  by code_simp

section \<open>Calendar arithmetic\<close>

lemma div_step:
  fixes y k :: int
  assumes "0 < k"
  shows "y div k = (y - 1) div k + (if y mod k = 0 then 1 else 0)"
proof -
  define r where "r = y mod k"
  define q where "q = y div k"
  have r: "0 \<le> r" "r < k" using assms by (simp_all add: r_def)
  have y: "y = r + q * k" by (simp add: r_def q_def)
  have k: "k \<noteq> 0" using assms by simp
  show ?thesis
  proof (cases "r = 0")
    case True
    have "y - 1 = (k - 1) + (q - 1) * k" using y True by (simp add: algebra_simps)
    then have "(y - 1) div k = ((k - 1) + (q - 1) * k) div k" by (simp only:)
    also have "\<dots> = (q - 1) + (k - 1) div k" using k by (rule div_mult_self1)
    also have "(k - 1) div k = 0" using assms by simp
    finally show ?thesis using True by (simp add: q_def r_def)
  next
    case False
    have "y - 1 = (r - 1) + q * k" using y by simp
    then have "(y - 1) div k = ((r - 1) + q * k) div k" by (simp only:)
    also have "\<dots> = q + (r - 1) div k" using k by (rule div_mult_self1)
    also have "(r - 1) div k = 0" using r False by simp
    finally show ?thesis using False by (simp add: q_def r_def)
  qed
qed

lemma mod_100_4: "(y::int) mod 100 = 0 \<Longrightarrow> y mod 4 = 0"
proof -
  assume "y mod 100 = 0"
  then have "100 dvd y" by (simp add: dvd_eq_mod_eq_0)
  moreover have "(4::int) dvd 100" by simp
  ultimately have "4 dvd y" using dvd_trans by blast
  then show ?thesis by (simp add: dvd_eq_mod_eq_0)
qed

lemma mod_400_100: "(y::int) mod 400 = 0 \<Longrightarrow> y mod 100 = 0"
proof -
  assume "y mod 400 = 0"
  then have "400 dvd y" by (simp add: dvd_eq_mod_eq_0)
  moreover have "(100::int) dvd 400" by simp
  ultimately have "100 dvd y" using dvd_trans by blast
  then show ?thesis by (simp add: dvd_eq_mod_eq_0)
qed

lemma days_before_year_Suc:
  "days_before_year (y + 1) = days_before_year y + (if is_leap y then 366 else 365)"
proof -
  define a :: int where "a = (if y mod 4 = 0 then 1 else 0)"
  define b :: int where "b = (if y mod 100 = 0 then 1 else 0)"
  define c :: int where "c = (if y mod 400 = 0 then 1 else 0)"
  have a: "y div 4 = (y - 1) div 4 + a" unfolding a_def by (rule div_step) simp
  have b: "y div 100 = (y - 1) div 100 + b" unfolding b_def by (rule div_step) simp
  have c: "y div 400 = (y - 1) div 400 + c" unfolding c_def by (rule div_step) simp
  have l: "(if is_leap y then 366 else 365) = 365 + a - b + c"
    using mod_100_4 [of y] mod_400_100 [of y]
    by (cases "y mod 4 = 0"; cases "y mod 100 = 0"; cases "y mod 400 = 0")
       (simp_all add: is_leap_def a_def b_def c_def)
  have "days_before_year (y + 1) = y * 365 + y div 4 - y div 100 + y div 400"
    by (simp add: days_before_year_def)
  also have "\<dots> = days_before_year y + (365 + a - b + c)"
    unfolding days_before_year_def a b c by (simp add: algebra_simps)
  finally show ?thesis using l by simp
qed

lemma days_in_month_bounds: "28 \<le> days_in_month y m \<and> days_in_month y m \<le> 31"
  by (simp add: days_in_month_def)

lemma days_before_month_Suc:
  "1 \<le> m \<Longrightarrow> days_before_month y (m + 1) = days_before_month y m + days_in_month y m"
  by (simp add: days_before_month_def upto_rec2)

lemma days_before_month_1: "days_before_month y 1 = 0"
  by (simp add: days_before_month_def)

lemma days_before_month_12: "days_before_month y 12 = (if is_leap y then 335 else 334)"
  by (simp add: days_before_month_def days_in_month_def upto.simps [of 1])

lemma valid_next_day:
  assumes "valid_date d" and "next_day d = Inr d'"
  shows "valid_date d'"
proof (cases "day d < days_in_month (year d) (month d)")
  case True
  with assms show ?thesis by (auto simp: valid_date_def next_day_def)
next
  case False
  note nd = this
  show ?thesis
  proof (cases "month d < 12")
    case True
    with nd assms(2) have "d' = \<lparr>year = year d, month = month d + 1, day = 1\<rparr>"
      by (simp add: next_day_def)
    with assms(1) True days_in_month_bounds [of "year d" "month d + 1"] show ?thesis
      by (simp add: valid_date_def)
  next
    case False
    with nd assms(2) have "year d < 9999 \<and> d' = \<lparr>year = year d + 1, month = 1, day = 1\<rparr>"
      by (simp add: next_day_def split: if_splits)
    with assms(1) days_in_month_bounds [of "year d + 1" 1] show ?thesis
      by (simp add: valid_date_def)
  qed
qed

lemma toordinal_next_day:
  assumes "valid_date d" and "next_day d = Inr d'"
  shows "toordinal d' = toordinal d + 1"
proof (cases "day d < days_in_month (year d) (month d)")
  case True
  with assms(2) show ?thesis by (auto simp: next_day_def toordinal_def)
next
  case False
  with assms(1) have dd: "day d = days_in_month (year d) (month d)"
    by (simp add: valid_date_def)
  show ?thesis
  proof (cases "month d < 12")
    case True
    with False assms(2) have "d' = \<lparr>year = year d, month = month d + 1, day = 1\<rparr>"
      by (simp add: next_day_def)
    moreover have "1 \<le> month d" using assms(1) by (simp add: valid_date_def)
    ultimately show ?thesis using dd
      by (simp add: toordinal_def days_before_month_Suc)
  next
    case False
    with assms(1) have m: "month d = 12" by (simp add: valid_date_def)
    with dd have d31: "day d = 31" by (simp add: days_in_month_def)
    from m d31 assms(2) have d': "d' = \<lparr>year = year d + 1, month = 1, day = 1\<rparr>"
      by (simp add: next_day_def days_in_month_def split: if_splits)
    show ?thesis using m d31 d'
      by (simp add: toordinal_def days_before_month_1 days_before_month_12 days_before_year_Suc)
  qed
qed

lemma toordinal_max: "toordinal \<lparr>year = 9999, month = 12, day = 31\<rparr> = MAXORDINAL"
  by (simp add: toordinal_def days_before_month_12 days_before_year_def is_leap_def MAXORDINAL_def)

lemma next_day_succeeds:
  assumes "valid_date d" and "toordinal d < MAXORDINAL"
  shows "\<exists>d'. next_day d = Inr d'"
proof (cases "day d < days_in_month (year d) (month d) \<or> month d < 12 \<or> year d < 9999")
  case True
  then show ?thesis by (auto simp: next_day_def)
next
  case False
  with assms(1) have "year d = 9999" "month d = 12" "day d = 31"
    by (auto simp: valid_date_def days_in_month_def)
  then have "d = \<lparr>year = 9999, month = 12, day = 31\<rparr>" by simp
  with assms(2) toordinal_max show ?thesis by simp
qed

lemma plus_days_ordinal:
  "valid_date d \<Longrightarrow> toordinal d + int n \<le> MAXORDINAL \<Longrightarrow>
   \<exists>d'. plus_days d n = Inr d' \<and> valid_date d' \<and> toordinal d' = toordinal d + int n"
proof (induction n arbitrary: d)
  case 0
  then show ?case by simp
next
  case (Suc n)
  from Suc.prems have "toordinal d < MAXORDINAL" by simp
  with Suc.prems(1) obtain d1 where d1: "next_day d = Inr d1"
    using next_day_succeeds by blast
  have v1: "valid_date d1" using valid_next_day [OF Suc.prems(1) d1] .
  have o1: "toordinal d1 = toordinal d + 1" using toordinal_next_day [OF Suc.prems(1) d1] .
  from Suc.prems(2) o1 have "toordinal d1 + int n \<le> MAXORDINAL" by simp
  from Suc.IH [OF v1 this] obtain d' where
    "plus_days d1 n = Inr d'" "valid_date d'" "toordinal d' = toordinal d1 + int n"
    by blast
  with d1 o1 show ?case by simp
qed

lemma datetime_new_valid:
  "1 \<le> y \<Longrightarrow> y \<le> 9999 \<Longrightarrow> 1 \<le> m \<Longrightarrow> m \<le> 12 \<Longrightarrow> 1 \<le> d \<Longrightarrow> d \<le> days_in_month y m \<Longrightarrow>
   datetime_new y m d = Inr \<lparr>year = y, month = m, day = d\<rparr>"
  by (simp add: datetime_new_def)

lemma last_day_of_month:
  assumes "1 \<le> y" "y \<le> 9999" "1 \<le> m" "m \<le> 11"
  shows "minus_days \<lparr>year = y, month = m + 1, day = 1\<rparr> 1
           = Inr \<lparr>year = y, month = m, day = days_in_month y m\<rparr>"
  using assms by (simp add: prev_day_def)

lemma monthly_step:
  assumes "1 \<le> y" "y \<le> 9999" "1 \<le> m" "m \<le> 11" "1 \<le> d"
  shows "(case datetime_new y (m + 1) 1 of
            Inl e \<Rightarrow> Inl e
          | Inr first_of_following \<Rightarrow>
              (case minus_days first_of_following 1 of
                 Inl e \<Rightarrow> Inl e
               | Inr last_date \<Rightarrow> datetime_new y m (min d (day last_date))))
         = Inr \<lparr>year = y, month = m, day = min d (days_in_month y m)\<rparr>"
proof -
  have 1: "datetime_new y (m + 1) 1 = Inr \<lparr>year = y, month = m + 1, day = 1\<rparr>"
    using assms days_in_month_bounds [of y "m + 1"] by (intro datetime_new_valid) simp_all
  have 2: "datetime_new y m (min d (days_in_month y m))
             = Inr \<lparr>year = y, month = m, day = min d (days_in_month y m)\<rparr>"
    using assms days_in_month_bounds [of y m] by (intro datetime_new_valid) simp_all
  show ?thesis
    unfolding 1 using last_day_of_month [OF assms(1-4)] 2 by simp
qed

lemma calculate_monthly:
  assumes "valid_date d" and "month d \<noteq> 11" and "month d = 12 \<longrightarrow> year d < 9999"
  shows "calculate_next_due_date d MONTHLY =
     Inr \<lparr>year = (if month d = 12 then year d + 1 else year d),
          month = (if month d = 12 then 1 else month d + 1),
          day = min (day d)
                  (days_in_month (if month d = 12 then year d + 1 else year d)
                                 (if month d = 12 then 1 else month d + 1))\<rparr>"
proof (cases "month d = 12")
  case True
  with assms have "1 \<le> year d + 1" "year d + 1 \<le> 9999" "1 \<le> day d"
    by (simp_all add: valid_date_def)
  from monthly_step [OF this(1,2) _ _ this(3), of 1] True show ?thesis
    by (simp add: calculate_next_due_date_def Let_def)
next
  case False
  with assms have h: "1 \<le> year d" "year d \<le> 9999" "1 \<le> month d + 1" "month d + 1 \<le> 11" "1 \<le> day d"
    by (simp_all add: valid_date_def)
  from monthly_step [OF h] False h(4) show ?thesis
    by (simp add: calculate_next_due_date_def Let_def)
qed

lemma calculate_monthly_november:
  assumes "valid_date d" and "month d = 11"
  shows "calculate_next_due_date d MONTHLY = Inl (ValueError ''month must be in 1..12'')"
  using assms
  by (simp add: calculate_next_due_date_def datetime_new_def valid_date_def Let_def)

lemma calculate_daily_weekly:
  assumes "valid_date d" and "toordinal d + int k \<le> MAXORDINAL"
    and "r = DAILY \<and> k = 1 \<or> r = WEEKLY \<and> k = 7"
  shows "\<exists>d'. calculate_next_due_date d r = Inr d' \<and> valid_date d'
            \<and> toordinal d' = toordinal d + int k"
proof -
  have "calculate_next_due_date d r = plus_days d k"
    using assms(3) by (auto simp: calculate_next_due_date_def)
  with plus_days_ordinal [OF assms(1,2)] show ?thesis by simp
qed

lemma find_by_id_Some_id: "find_by_id task_id ts = Some t \<Longrightarrow> id_t t = task_id"
  by (induction ts) (auto split: if_splits)

lemma length_replace_first: "length (snd (replace_first t' ts)) = length ts"
  by (induction ts) (auto split: prod.splits)

lemma replace_first_append:
  "find_by_id (id_t t') ts = Some t \<Longrightarrow>
   snd (replace_first t' (ts @ xs)) = snd (replace_first t' ts) @ xs"
  by (induction ts) (auto split: prod.splits if_splits)

lemma replace_first_idem:
  "snd (replace_first t' (snd (replace_first t' ts))) = snd (replace_first t' ts)"
  by (induction ts) (auto split: prod.splits)

lemma find_replace_first:
  "find_by_id (id_t t') ts = Some t \<Longrightarrow>
   find_by_id (id_t t') (snd (replace_first t' ts)) = Some t'"
  by (induction ts) (auto split: prod.splits if_splits)

lemma replace_first_same:
  "find_by_id (id_t t) ts = Some t \<Longrightarrow> snd (replace_first t ts) = ts"
  by (induction ts) (auto split: prod.splits if_splits)

lemma update_mutate: "snd (update t' (mutate t' st)) = mutate t' st"
  by (simp add: update_def mutate_def replace_first_idem case_prod_beta)

section \<open>Toggling and recurrence\<close>

lemma call_calculate_next_due_date_raises:
  "call_calculate_next_due_date d r
     = Inl (NameError ''name calculate_next_due_date is not defined'')"
  by (simp add: call_calculate_next_due_date_def imported_from_models_def)

lemma toggle_task_plain:
  assumes "get_by_id task_id (storage svc) = Some task"
    and "is_completed task \<or> recurrence task = NONE \<or> due_date task = None"
  shows "toggle_task now task_id svc =
     (Inr (Some (task\<lparr>is_completed := \<not> is_completed task\<rparr>), None),
      svc\<lparr>storage := mutate (task\<lparr>is_completed := \<not> is_completed task\<rparr>) (storage svc)\<rparr>)"
  using assms
  by (auto simp: toggle_task_def ensure_task_compatibility_def Let_def update_mutate)

lemma toggle_task_recurring:
  assumes "get_by_id task_id (storage svc) = Some task"
    and "\<not> is_completed task" and "recurrence task \<noteq> NONE" and "due_date task = Some due"
  shows "toggle_task now task_id svc =
     (Inl (NameError ''name calculate_next_due_date is not defined''), svc)"
  using assms
  by (simp add: toggle_task_def ensure_task_compatibility_def Let_def
      call_calculate_next_due_date_raises)

lemma add_task_sample:
  "add_task 10 ''Buy milk'' ''two litres'' ''medium'' ''Home'' ''2025-01-31'' ''daily''
     init_service = (Inr sample_task, sample_service)"
  by code_simp

text \<open>
  C4. The claim asks that completing an incomplete task with a recurrence and a due date
  creates exactly one successor, due one day later for \<open>DAILY\<close>. The task below is
  incomplete, recurs daily and is due 2025-01-31. \<open>toggle_task\<close> reaches the call of
  \<open>calculate_next_due_date\<close>, a name \<open>services.py\<close> never imports, and ends with a
  \<open>NameError\<close>: no successor is created and the task is still incomplete. Lemma
  \<open>toggle_task_recurring\<close> shows the same for every such task; the part of the claim
  about tasks that get no successor holds (lemma \<open>toggle_task_plain\<close>).
\<close>

theorem toggle_task_daily_raises_name_error:
  "get_by_id 1 (storage sample_service) = Some sample_task
   \<and> \<not> is_completed sample_task
   \<and> recurrence sample_task = DAILY
   \<and> due_date sample_task = Some \<lparr>year = 2025, month = 1, day = 31\<rparr>
   \<and> toggle_task 20 1 sample_service
     = (Inl (NameError ''name calculate_next_due_date is not defined''), sample_service)"
  by code_simp

section \<open>Monthly recurrence\<close>

text \<open>
  C1. The claim asks that completing a \<open>MONTHLY\<close> task creates a successor due in the
  next month for every starting month, November included. The task below is what
  \<open>add_task\<close> stores for a monthly task due 2025-11-15. Completing it fails twice
  over. \<open>toggle_task\<close> raises \<open>NameError\<close> at the call of \<open>calculate_next_due_date\<close>,
  which \<open>services.py\<close> never imports, as it does for every month: no successor exists
  and the task is still incomplete. And \<open>calculate_next_due_date\<close> itself, given this
  date, looks for the last day of December through \<open>datetime(2025, 13, 1)\<close>, which
  raises \<open>ValueError\<close>.
\<close>

theorem toggle_task_monthly_november_raises:
  "add_task 10 ''Pay rent'' [] ''high'' [] ''2025-11-15'' ''monthly'' init_service
     = (Inr november_task, november_service)
   \<and> toggle_task 20 1 november_service
     = (Inl (NameError ''name calculate_next_due_date is not defined''), november_service)
   \<and> calculate_next_due_date \<lparr>year = 2025, month = 11, day = 15\<rparr> MONTHLY
     = Inl (ValueError ''month must be in 1..12'')"
  by code_simp

section \<open>Filtering\<close>

lemma filter_tasks_eq:
  "filter_tasks svc =
     filter (\<lambda>t. (\<forall>b. status (filters svc) = Some b \<longrightarrow> is_completed t = b)
               \<and> (\<forall>p. priority_f (filters svc) = Some p \<longrightarrow> priority t = p)
               \<and> (\<forall>c. category_f (filters svc) = Some c \<longrightarrow>
                    (\<exists>tc. category t = Some tc \<and> tc \<noteq> []
                        \<and> sublist (casefold c) (casefold tc))))
       (get_all_tasks svc)"
  by (cases "status (filters svc)"; cases "priority_f (filters svc)";
      cases "category_f (filters svc)")
     (auto simp: filter_tasks_def Let_def str_contains_sublist intro!: filter_cong
           split: option.splits)

lemma filter_tasks_exact:
  "sorted (map id_t (filter_tasks svc))
   \<and> mset (filter_tasks svc) =
       filter_mset
         (\<lambda>t. (\<forall>b. status (filters svc) = Some b \<longrightarrow> is_completed t = b)
             \<and> (\<forall>p. priority_f (filters svc) = Some p \<longrightarrow> priority t = p)
             \<and> (\<forall>c. category_f (filters svc) = Some c \<longrightarrow>
                  (\<exists>tc. category t = Some tc \<and> tc \<noteq> []
                      \<and> sublist (casefold c) (casefold tc))))
         (mset (tasks (storage svc)))"
proof -
  have "sorted (map id_t (filter P (get_all_tasks svc)))" for P
    using sorted_get_all_tasks [of svc] by (rule sorted_filter)
  moreover have "mset (filter P (get_all_tasks svc)) = filter_mset P (mset (tasks (storage svc)))"
    for P
    by (simp add: mset_get_all_tasks)
  ultimately show ?thesis
    unfolding filter_tasks_eq by blast
qed

lemma sublist_casefold_blank: "sublist (casefold c) (casefold []) \<longleftrightarrow> c = []"
  by (simp add: casefold_def)

text \<open>
  The service never holds an empty string as category filter: \<open>set_filter_category\<close>
  stores \<open>None\<close> for blank input, and a fresh or cleared filter state has \<open>None\<close>.
\<close>

lemma set_filter_category_not_blank:
  "category_f (filters (set_filter_category category' svc)) \<noteq> Some []"
  by (simp add: set_filter_category_def Let_def)

lemma init_service_not_blank: "category_f (filters init_service) \<noteq> Some []"
  by (simp add: init_service_def)

text \<open>
  C7. For every task list and every filter state the service can hold (the category
  filter, when set, is not the empty string), \<open>filter_tasks\<close> returns, in ascending id
  order, exactly the stored tasks (each as often as it is stored) that pass every filter
  that is set: the completion flag equals the status filter, the priority equals the
  priority filter, and the case-folded category filter occurs in the task's case-folded
  category. Lemma \<open>filter_tasks_exact\<close> gives the selection without that condition on
  the filter.
\<close>

theorem filter_tasks_spec:
  assumes "category_f (filters svc) \<noteq> Some []"
  shows "sorted (map id_t (filter_tasks svc))
   \<and> mset (filter_tasks svc) =
       filter_mset
         (\<lambda>t. (\<forall>b. status (filters svc) = Some b \<longrightarrow> is_completed t = b)
             \<and> (\<forall>p. priority_f (filters svc) = Some p \<longrightarrow> priority t = p)
             \<and> (\<forall>c. category_f (filters svc) = Some c \<longrightarrow>
                  (\<exists>tc. category t = Some tc \<and> sublist (casefold c) (casefold tc))))
         (mset (tasks (storage svc)))"
proof -
  have "filter_mset
         (\<lambda>t. (\<forall>b. status (filters svc) = Some b \<longrightarrow> is_completed t = b)
             \<and> (\<forall>p. priority_f (filters svc) = Some p \<longrightarrow> priority t = p)
             \<and> (\<forall>c. category_f (filters svc) = Some c \<longrightarrow>
                  (\<exists>tc. category t = Some tc \<and> tc \<noteq> []
                      \<and> sublist (casefold c) (casefold tc))))
         (mset (tasks (storage svc)))
      = filter_mset
         (\<lambda>t. (\<forall>b. status (filters svc) = Some b \<longrightarrow> is_completed t = b)
             \<and> (\<forall>p. priority_f (filters svc) = Some p \<longrightarrow> priority t = p)
             \<and> (\<forall>c. category_f (filters svc) = Some c \<longrightarrow>
                  (\<exists>tc. category t = Some tc \<and> sublist (casefold c) (casefold tc))))
         (mset (tasks (storage svc)))"
    using assms by (intro filter_mset_cong refl) (auto simp: sublist_casefold_blank)
  with filter_tasks_exact [of svc] show ?thesis by simp
qed

lemma filter_tasks_work: "filter_tasks work_service = [work_task]"
  by code_simp

theorem filter_tasks_spec_witness:
  "category_f (filters work_service) \<noteq> Some []
   \<and> priority_f (filters work_service) = Some HIGH
   \<and> category_f (filters work_service) = Some ''work''
   \<and> sorted (map id_t (filter_tasks work_service))
   \<and> mset (filter_tasks work_service) =
       filter_mset
         (\<lambda>t. (\<forall>b. status (filters work_service) = Some b \<longrightarrow> is_completed t = b)
             \<and> (\<forall>p. priority_f (filters work_service) = Some p \<longrightarrow> priority t = p)
             \<and> (\<forall>c. category_f (filters work_service) = Some c \<longrightarrow>
                  (\<exists>tc. category t = Some tc \<and> sublist (casefold c) (casefold tc))))
         (mset (tasks (storage work_service)))"
proof -
  have h: "category_f (filters work_service) \<noteq> Some []"
    by (simp add: work_service_def)
  have "priority_f (filters work_service) = Some HIGH"
    and "category_f (filters work_service) = Some ''work''"
    by (simp_all add: work_service_def)
  with h filter_tasks_spec [OF h] show ?thesis by blast
qed

section \<open>Updating a task\<close>

lemma and_then_eq: "and_then r f = (if Option.is_none (fst r) then f (snd r) else r)"
  by (cases r; cases "fst r") (auto simp: and_then_def)

lemma set_title_facts:
  "set_title None t = (None, t)"
  "Option.is_none (fst (set_title a t)) = (\<not> title_fails a)"
  "title_fails a \<Longrightarrow> snd (set_title a t) = t"
  "title (snd (set_title a t)) = new_title a (title t)"
  "id_t (snd (set_title a t)) = id_t t"
  "description (snd (set_title a t)) = description t"
  "is_completed (snd (set_title a t)) = is_completed t"
  "created_at (snd (set_title a t)) = created_at t"
  "priority (snd (set_title a t)) = priority t"
  "category (snd (set_title a t)) = category t"
  "due_date (snd (set_title a t)) = due_date t"
  "recurrence (snd (set_title a t)) = recurrence t"
  "parent_task_id (snd (set_title a t)) = parent_task_id t"
  by (auto simp: set_title_def title_fails_def new_title_def split: option.splits sum.splits)

lemma set_description_facts:
  "set_description None t = (None, t)"
  "Option.is_none (fst (set_description a t)) = (\<not> description_fails a)"
  "description_fails a \<Longrightarrow> snd (set_description a t) = t"
  "description (snd (set_description a t)) = new_description a (description t)"
  "id_t (snd (set_description a t)) = id_t t"
  "title (snd (set_description a t)) = title t"
  "is_completed (snd (set_description a t)) = is_completed t"
  "created_at (snd (set_description a t)) = created_at t"
  "priority (snd (set_description a t)) = priority t"
  "category (snd (set_description a t)) = category t"
  "due_date (snd (set_description a t)) = due_date t"
  "recurrence (snd (set_description a t)) = recurrence t"
  "parent_task_id (snd (set_description a t)) = parent_task_id t"
  by (auto simp: set_description_def description_fails_def new_description_def
      split: option.splits sum.splits)

lemma set_priority_facts:
  "set_priority None t = (None, t)"
  "Option.is_none (fst (set_priority a t)) = (\<not> priority_fails a)"
  "priority_fails a \<Longrightarrow> snd (set_priority a t) = t"
  "priority (snd (set_priority a t)) = new_priority a (priority t)"
  "id_t (snd (set_priority a t)) = id_t t"
  "title (snd (set_priority a t)) = title t"
  "description (snd (set_priority a t)) = description t"
  "is_completed (snd (set_priority a t)) = is_completed t"
  "created_at (snd (set_priority a t)) = created_at t"
  "category (snd (set_priority a t)) = category t"
  "due_date (snd (set_priority a t)) = due_date t"
  "recurrence (snd (set_priority a t)) = recurrence t"
  "parent_task_id (snd (set_priority a t)) = parent_task_id t"
  by (auto simp: set_priority_def priority_fails_def new_priority_def
      split: option.splits sum.splits)

lemma set_category_facts:
  "set_category None t = (None, t)"
  "Option.is_none (fst (set_category a t)) = (\<not> category_fails a)"
  "category_fails a \<Longrightarrow> snd (set_category a t) = t"
  "category (snd (set_category a t)) = new_category a (category t)"
  "id_t (snd (set_category a t)) = id_t t"
  "title (snd (set_category a t)) = title t"
  "description (snd (set_category a t)) = description t"
  "is_completed (snd (set_category a t)) = is_completed t"
  "created_at (snd (set_category a t)) = created_at t"
  "priority (snd (set_category a t)) = priority t"
  "due_date (snd (set_category a t)) = due_date t"
  "recurrence (snd (set_category a t)) = recurrence t"
  "parent_task_id (snd (set_category a t)) = parent_task_id t"
  by (auto simp: set_category_def category_fails_def new_category_def
      split: option.splits sum.splits)

lemma set_due_date_facts:
  "set_due_date None t = (None, t)"
  "Option.is_none (fst (set_due_date a t)) = (\<not> due_date_fails a)"
  "due_date_fails a \<Longrightarrow> snd (set_due_date a t) = t"
  "due_date (snd (set_due_date a t)) = new_due_date a (due_date t)"
  "id_t (snd (set_due_date a t)) = id_t t"
  "title (snd (set_due_date a t)) = title t"
  "description (snd (set_due_date a t)) = description t"
  "is_completed (snd (set_due_date a t)) = is_completed t"
  "created_at (snd (set_due_date a t)) = created_at t"
  "priority (snd (set_due_date a t)) = priority t"
  "category (snd (set_due_date a t)) = category t"
  "recurrence (snd (set_due_date a t)) = recurrence t"
  "parent_task_id (snd (set_due_date a t)) = parent_task_id t"
  by (auto simp: set_due_date_def due_date_fails_def new_due_date_def
      split: option.splits sum.splits)

lemma set_recurrence_facts:
  "set_recurrence None t = (None, t)"
  "Option.is_none (fst (set_recurrence a t)) = (\<not> recurrence_fails a)"
  "recurrence_fails a \<Longrightarrow> snd (set_recurrence a t) = t"
  "recurrence (snd (set_recurrence a t)) = new_recurrence a (recurrence t)"
  "id_t (snd (set_recurrence a t)) = id_t t"
  "title (snd (set_recurrence a t)) = title t"
  "description (snd (set_recurrence a t)) = description t"
  "is_completed (snd (set_recurrence a t)) = is_completed t"
  "created_at (snd (set_recurrence a t)) = created_at t"
  "priority (snd (set_recurrence a t)) = priority t"
  "category (snd (set_recurrence a t)) = category t"
  "due_date (snd (set_recurrence a t)) = due_date t"
  "parent_task_id (snd (set_recurrence a t)) = parent_task_id t"
  by (auto simp: set_recurrence_def recurrence_fails_def new_recurrence_def
      split: option.splits sum.splits)

lemmas set_facts = set_title_facts set_description_facts set_priority_facts
  set_category_facts set_due_date_facts set_recurrence_facts

lemma new_value_facts:
  "new_title None t0 = t0" "title_fails a \<Longrightarrow> new_title a t0 = t0"
  "new_description None d0 = d0" "description_fails a \<Longrightarrow> new_description a d0 = d0"
  "new_priority None p0 = p0" "priority_fails a \<Longrightarrow> new_priority a p0 = p0"
  "new_category None c0 = c0" "category_fails a \<Longrightarrow> new_category a c0 = c0"
  "new_due_date None u0 = u0" "due_date_fails a \<Longrightarrow> new_due_date a u0 = u0"
  "new_recurrence None r0 = r0" "recurrence_fails a \<Longrightarrow> new_recurrence a r0 = r0"
  by (auto simp: new_title_def title_fails_def new_description_def description_fails_def
      new_priority_def priority_fails_def new_category_def category_fails_def
      new_due_date_def due_date_fails_def new_recurrence_def recurrence_fails_def
      split: option.splits sum.splits)

lemma update_fields_ok:
  "Option.is_none (fst (update_fields ti de pr ca du re t)) =
     (\<not> title_fails ti \<and> \<not> description_fails de \<and> \<not> priority_fails pr
      \<and> \<not> category_fails ca \<and> \<not> due_date_fails du \<and> \<not> recurrence_fails re)"
  by (simp add: update_fields_def and_then_eq set_facts)

lemma update_fields_frame:
  "id_t (snd (update_fields ti de pr ca du re t)) = id_t t"
  "is_completed (snd (update_fields ti de pr ca du re t)) = is_completed t"
  "created_at (snd (update_fields ti de pr ca du re t)) = created_at t"
  "parent_task_id (snd (update_fields ti de pr ca du re t)) = parent_task_id t"
  by (simp_all add: update_fields_def and_then_eq set_facts)

lemma update_fields_title:
  "title (snd (update_fields ti de pr ca du re t)) = new_title ti (title t)"
  by (simp add: update_fields_def and_then_eq set_facts new_value_facts)

lemma update_fields_description:
  "description (snd (update_fields ti de pr ca du re t)) =
     (if title_fails ti then description t else new_description de (description t))"
  by (simp add: update_fields_def and_then_eq set_facts new_value_facts)

lemma update_fields_priority:
  "priority (snd (update_fields ti de pr ca du re t)) =
     (if title_fails ti \<or> description_fails de then priority t
      else new_priority pr (priority t))"
  by (simp add: update_fields_def and_then_eq set_facts new_value_facts)

lemma update_fields_category:
  "category (snd (update_fields ti de pr ca du re t)) =
     (if title_fails ti \<or> description_fails de \<or> priority_fails pr then category t
      else new_category ca (category t))"
  by (simp add: update_fields_def and_then_eq set_facts new_value_facts)

lemma update_fields_due_date:
  "due_date (snd (update_fields ti de pr ca du re t)) =
     (if title_fails ti \<or> description_fails de \<or> priority_fails pr \<or> category_fails ca
      then due_date t else new_due_date du (due_date t))"
  by (simp add: update_fields_def and_then_eq set_facts new_value_facts)

lemma update_fields_recurrence:
  "recurrence (snd (update_fields ti de pr ca du re t)) =
     (if title_fails ti \<or> description_fails de \<or> priority_fails pr \<or> category_fails ca
         \<or> due_date_fails du
      then recurrence t else new_recurrence re (recurrence t))"
  by (simp add: update_fields_def and_then_eq set_facts new_value_facts)

lemma update_fields_untouched:
  assumes "title_fails ti \<or> (ti = None \<and> (description_fails de \<or> (de = None \<and>
            (priority_fails pr \<or> (pr = None \<and> (category_fails ca \<or> (ca = None \<and>
            (due_date_fails du \<or> (du = None \<and> recurrence_fails re)))))))))"
  shows "snd (update_fields ti de pr ca du re t) = t"
  using assms by (auto simp: update_fields_def and_then_eq set_facts)

lemma snd_update_task:
  assumes "get_by_id task_id (storage svc) = Some task"
  shows "snd (update_task task_id ti de pr ca du re svc) =
           svc\<lparr>storage := mutate (snd (update_fields ti de pr ca du re task)) (storage svc)\<rparr>"
  using assms
  by (simp add: update_task_def ensure_task_compatibility_def update_mutate
      split: prod.splits option.splits)

lemma fst_update_task:
  assumes "get_by_id task_id (storage svc) = Some task"
  shows "fst (update_task task_id ti de pr ca du re svc) =
           (case fst (update_fields ti de pr ca du re task) of
              Some e \<Rightarrow> Inl e
            | None \<Rightarrow> Inr (Some (snd (update_fields ti de pr ca du re task))))"
  using assms
  by (simp add: update_task_def ensure_task_compatibility_def
      split: prod.splits option.splits)

lemma get_by_id_mutate:
  assumes "get_by_id task_id st = Some task" and "id_t task' = id_t task"
  shows "get_by_id task_id (mutate task' st) = Some task'"
proof -
  have i: "id_t task' = task_id"
    using assms find_by_id_Some_id [of task_id "tasks st" task] by (simp add: get_by_id_def)
  from assms(1) have "find_by_id (id_t task') (tasks st) = Some task"
    by (simp add: get_by_id_def i)
  from find_replace_first [OF this] show ?thesis
    by (simp add: get_by_id_def mutate_def i)
qed

lemma mutate_same:
  assumes "get_by_id task_id st = Some task"
  shows "mutate task st = st"
proof -
  have "id_t task = task_id"
    using assms find_by_id_Some_id [of task_id "tasks st" task] by (simp add: get_by_id_def)
  with assms have "find_by_id (id_t task) (tasks st) = Some task"
    by (simp add: get_by_id_def)
  from replace_first_same [OF this] show ?thesis by (simp add: mutate_def)
qed

text \<open>
  C2 (as amended). Let the task exist and \<open>update_task\<close> raise a validation error.
  The fields are handled in the order title, description, priority, category, due date,
  recurrence, each assigned as soon as it is validated. So the field that fails and every
  field after it keep their values, as do id, completion flag, creation time and parent
  id, all other tasks and the id counter; a supplied field before the failing one already
  has its new, validated value. The service is exactly as before when no supplied field
  precedes the failing one.
\<close>

theorem update_task_error_partial:
  assumes "get_by_id task_id (storage svc) = Some task"
    and "update_task task_id ti de pr ca du re svc = (Inl e, svc')"
  shows "\<exists>task'. svc' = svc\<lparr>storage := mutate task' (storage svc)\<rparr>
     \<and> get_by_id task_id (storage svc') = Some task'
     \<and> id_t task' = id_t task \<and> is_completed task' = is_completed task
     \<and> created_at task' = created_at task \<and> parent_task_id task' = parent_task_id task
     \<and> title task' = (if title_fails ti then title task else new_title ti (title task))
     \<and> description task' =
         (if title_fails ti \<or> description_fails de then description task
          else new_description de (description task))
     \<and> priority task' =
         (if title_fails ti \<or> description_fails de \<or> priority_fails pr then priority task
          else new_priority pr (priority task))
     \<and> category task' =
         (if title_fails ti \<or> description_fails de \<or> priority_fails pr \<or> category_fails ca
          then category task else new_category ca (category task))
     \<and> due_date task' =
         (if title_fails ti \<or> description_fails de \<or> priority_fails pr \<or> category_fails ca
             \<or> due_date_fails du
          then due_date task else new_due_date du (due_date task))
     \<and> recurrence task' = recurrence task
     \<and> (title_fails ti \<or> (ti = None \<and> (description_fails de \<or> (de = None \<and>
            (priority_fails pr \<or> (pr = None \<and> (category_fails ca \<or> (ca = None \<and>
            (due_date_fails du \<or> du = None)))))))) \<longrightarrow> svc' = svc)"
proof -
  let ?r = "update_fields ti de pr ca du re task"
  let ?t = "snd ?r"
  have s: "svc' = svc\<lparr>storage := mutate ?t (storage svc)\<rparr>"
    using snd_update_task [OF assms(1), of ti de pr ca du re] assms(2) by simp
  have "fst (update_task task_id ti de pr ca du re svc) = Inl e" using assms(2) by simp
  then have "\<not> Option.is_none (fst ?r)"
    using fst_update_task [OF assms(1), of ti de pr ca du re]
    by (cases "fst ?r") simp_all
  then have bad: "title_fails ti \<or> description_fails de \<or> priority_fails pr
      \<or> category_fails ca \<or> due_date_fails du \<or> recurrence_fails re"
    by (simp add: update_fields_ok)
  have g: "get_by_id task_id (storage svc') = Some ?t"
    unfolding s using get_by_id_mutate [OF assms(1), of ?t] by (simp add: update_fields_frame)
  have ti: "title ?t = (if title_fails ti then title task else new_title ti (title task))"
    by (simp add: update_fields_title new_value_facts)
  have du: "due_date ?t =
         (if title_fails ti \<or> description_fails de \<or> priority_fails pr \<or> category_fails ca
             \<or> due_date_fails du
          then due_date task else new_due_date du (due_date task))"
    by (simp add: update_fields_due_date new_value_facts)
  have re: "recurrence ?t = recurrence task"
    using bad by (auto simp: update_fields_recurrence new_value_facts)
  have same: "svc' = svc"
    if "title_fails ti \<or> (ti = None \<and> (description_fails de \<or> (de = None \<and>
            (priority_fails pr \<or> (pr = None \<and> (category_fails ca \<or> (ca = None \<and>
            (due_date_fails du \<or> du = None))))))))"
  proof -
    from that bad have "title_fails ti \<or> (ti = None \<and> (description_fails de \<or> (de = None \<and>
            (priority_fails pr \<or> (pr = None \<and> (category_fails ca \<or> (ca = None \<and>
            (due_date_fails du \<or> (du = None \<and> recurrence_fails re)))))))))"
      by (auto simp: due_date_fails_def)
    from update_fields_untouched [OF this] have "?t = task" .
    with s mutate_same [OF assms(1)] show ?thesis by simp
  qed
  have de: "description ?t =
         (if title_fails ti \<or> description_fails de then description task
          else new_description de (description task))"
    by (simp add: update_fields_description new_value_facts)
  have pr: "priority ?t =
         (if title_fails ti \<or> description_fails de \<or> priority_fails pr then priority task
          else new_priority pr (priority task))"
    by (simp add: update_fields_priority new_value_facts)
  have ca: "category ?t =
         (if title_fails ti \<or> description_fails de \<or> priority_fails pr \<or> category_fails ca
          then category task else new_category ca (category task))"
    by (simp add: update_fields_category new_value_facts)
  show ?thesis
  proof (intro exI [of _ ?t] conjI impI)
    show "svc' = svc\<lparr>storage := mutate ?t (storage svc)\<rparr>" by (rule s)
    show "get_by_id task_id (storage svc') = Some ?t" by (rule g)
    show "id_t ?t = id_t task" by (rule update_fields_frame)
    show "is_completed ?t = is_completed task" by (rule update_fields_frame)
    show "created_at ?t = created_at task" by (rule update_fields_frame)
    show "parent_task_id ?t = parent_task_id task" by (rule update_fields_frame)
    show "title ?t = (if title_fails ti then title task else new_title ti (title task))"
      by (rule ti)
    show "description ?t =
         (if title_fails ti \<or> description_fails de then description task
          else new_description de (description task))" by (rule de)
    show "priority ?t =
         (if title_fails ti \<or> description_fails de \<or> priority_fails pr then priority task
          else new_priority pr (priority task))" by (rule pr)
    show "category ?t =
         (if title_fails ti \<or> description_fails de \<or> priority_fails pr \<or> category_fails ca
          then category task else new_category ca (category task))" by (rule ca)
    show "due_date ?t =
         (if title_fails ti \<or> description_fails de \<or> priority_fails pr \<or> category_fails ca
             \<or> due_date_fails du
          then due_date task else new_due_date du (due_date task))" by (rule du)
    show "recurrence ?t = recurrence task" by (rule re)
    show "svc' = svc"
      if "title_fails ti \<or> (ti = None \<and> (description_fails de \<or> (de = None \<and>
            (priority_fails pr \<or> (pr = None \<and> (category_fails ca \<or> (ca = None \<and>
            (due_date_fails du \<or> du = None))))))))"
      using that by (rule same)
  qed
qed

theorem update_task_error_partial_witness:
  "get_by_id 1 (storage sample_service) = Some sample_task
   \<and> update_task 1 None None (Some ''urgent'') None None None sample_service
       = (Inl (ValidationError ''Invalid priority''), sample_service)
   \<and> priority_fails (Some ''urgent'')
   \<and> (\<exists>task'. sample_service = sample_service\<lparr>storage := mutate task' (storage sample_service)\<rparr>
        \<and> get_by_id 1 (storage sample_service) = Some task'
        \<and> title task' = title sample_task \<and> priority task' = priority sample_task
        \<and> recurrence task' = recurrence sample_task)"
proof -
  have h1: "get_by_id 1 (storage sample_service) = Some sample_task"
    by (simp add: get_by_id_def sample_service_def sample_task_def)
  have h2: "update_task 1 None None (Some ''urgent'') None None None sample_service
       = (Inl (ValidationError ''Invalid priority''), sample_service)"
    by code_simp
  have h3: "priority_fails (Some ''urgent'')" by code_simp
  have h4: "\<not> title_fails None" "\<not> description_fails None"
    by (simp_all add: title_fails_def description_fails_def)
  from update_task_error_partial [OF h1 h2] obtain task' where
    "sample_service = sample_service\<lparr>storage := mutate task' (storage sample_service)\<rparr>"
    "get_by_id 1 (storage sample_service) = Some task'"
    "title task' = (if title_fails None then title sample_task
                    else new_title None (title sample_task))"
    "priority task' =
         (if title_fails None \<or> description_fails None \<or> priority_fails (Some ''urgent'')
          then priority sample_task else new_priority (Some ''urgent'') (priority sample_task))"
    "recurrence task' = recurrence sample_task"
    by blast
  with h3 h4 have "\<exists>task'. sample_service = sample_service\<lparr>storage := mutate task' (storage sample_service)\<rparr>
        \<and> get_by_id 1 (storage sample_service) = Some task'
        \<and> title task' = title sample_task \<and> priority task' = priority sample_task
        \<and> recurrence task' = recurrence sample_task"
    by (auto simp: new_value_facts)
  with h1 h2 h3 show ?thesis by blast
qed

text \<open>
  C2 as stated fails: with a valid new title and an invalid priority the call raises,
  and the stored task already carries the new title.
\<close>

theorem update_task_partial_write:
  "get_by_id 1 (storage sample_service) = Some sample_task
   \<and> fst (update_task 1 (Some ''Buy bread'') None (Some ''urgent'') None None None sample_service)
       = Inl (ValidationError ''Invalid priority'')
   \<and> get_by_id 1 (storage (snd (update_task 1 (Some ''Buy bread'') None (Some ''urgent'')
                                   None None None sample_service)))
       = Some (sample_task\<lparr>title := ''Buy bread''\<rparr>)
   \<and> title sample_task = ''Buy milk''"
  by code_simp

lemma update_fields_only_due_date:
  "strip s = [] \<Longrightarrow>
   update_fields None None None None (Some s) None t = (None, t\<lparr>due_date := None\<rparr>)"
  by (simp add: update_fields_def and_then_def set_title_def set_description_def
      set_priority_def set_category_def set_due_date_def set_recurrence_def)

text \<open>
  C5. For an existing task, \<open>update_task\<close> keeps or clears the due date as asked.
  With \<open>due_date_str\<close> \<open>None\<close> the stored due date is what it was, whatever the
  other arguments are and whether or not the call raises. With \<open>due_date_str\<close> empty
  or all white space the stored due date is unset once the call returns; a call that
  supplies nothing else always returns and changes nothing else. Likewise every one of
  title, description, priority, category and recurrence that is passed as \<open>None\<close>
  keeps its stored value.
\<close>

theorem update_task_keep_or_clear:
  assumes "get_by_id task_id (storage svc) = Some task"
  shows "\<exists>task'.
       get_by_id task_id (storage (snd (update_task task_id ti de pr ca du re svc))) = Some task'
     \<and> (du = None \<longrightarrow> due_date task' = due_date task)
     \<and> (\<forall>s r. du = Some s \<and> strip s = []
               \<and> fst (update_task task_id ti de pr ca du re svc) = Inr r \<longrightarrow>
             r = Some task' \<and> due_date task' = None)
     \<and> (ti = None \<longrightarrow> title task' = title task)
     \<and> (de = None \<longrightarrow> description task' = description task)
     \<and> (pr = None \<longrightarrow> priority task' = priority task)
     \<and> (ca = None \<longrightarrow> category task' = category task)
     \<and> (re = None \<longrightarrow> recurrence task' = recurrence task)
     \<and> (\<forall>s. strip s = [] \<longrightarrow>
           update_task task_id None None None None (Some s) None svc =
             (Inr (Some (task\<lparr>due_date := None\<rparr>)),
              svc\<lparr>storage := mutate (task\<lparr>due_date := None\<rparr>) (storage svc)\<rparr>))"
proof -
  let ?r = "update_fields ti de pr ca du re task"
  let ?t = "snd ?r"
  have g: "get_by_id task_id (storage (snd (update_task task_id ti de pr ca du re svc)))
             = Some ?t"
    unfolding snd_update_task [OF assms]
    using get_by_id_mutate [OF assms, of ?t] by (simp add: update_fields_frame)
  have keep_du: "due_date ?t = due_date task" if "du = None"
    using that by (simp add: update_fields_due_date new_value_facts)
  have clear: "r = Some ?t \<and> due_date ?t = None"
    if "du = Some s \<and> strip s = [] \<and> fst (update_task task_id ti de pr ca du re svc) = Inr r"
    for s r
  proof -
    from that have e: "fst (update_task task_id ti de pr ca du re svc) = Inr r" by blast
    have f: "(case fst ?r of Some e \<Rightarrow> Inl e | None \<Rightarrow> Inr (Some ?t)) = Inr r"
      using e unfolding fst_update_task [OF assms] .
    then have n: "Option.is_none (fst ?r)" by (cases "fst ?r") simp_all
    with f have r: "r = Some ?t" by (cases "fst ?r") simp_all
    from n have "\<not> title_fails ti \<and> \<not> description_fails de \<and> \<not> priority_fails pr
        \<and> \<not> category_fails ca"
      by (simp add: update_fields_ok)
    then have "due_date ?t = new_due_date du (due_date task)"
      by (simp add: update_fields_due_date)
    with that have "due_date ?t = None" by (simp add: new_due_date_def)
    with r show ?thesis by simp
  qed
  have keep_ti: "title ?t = title task" if "ti = None"
    using that by (simp add: update_fields_title new_value_facts)
  have keep_de: "description ?t = description task" if "de = None"
    using that by (simp add: update_fields_description new_value_facts)
  have keep_pr: "priority ?t = priority task" if "pr = None"
    using that by (simp add: update_fields_priority new_value_facts)
  have keep_ca: "category ?t = category task" if "ca = None"
    using that by (simp add: update_fields_category new_value_facts)
  have keep_re: "recurrence ?t = recurrence task" if "re = None"
    using that by (simp add: update_fields_recurrence new_value_facts)
  have only: "update_task task_id None None None None (Some s) None svc =
             (Inr (Some (task\<lparr>due_date := None\<rparr>)),
              svc\<lparr>storage := mutate (task\<lparr>due_date := None\<rparr>) (storage svc)\<rparr>)"
    if "strip s = []" for s
    using assms that
    by (simp add: update_task_def ensure_task_compatibility_def update_fields_only_due_date
        update_mutate)
  from g keep_du clear keep_ti keep_de keep_pr keep_ca keep_re only show ?thesis
    by blast
qed

theorem update_task_keep_or_clear_witness:
  "get_by_id 1 (storage sample_service) = Some sample_task
   \<and> due_date sample_task = Some \<lparr>year = 2025, month = 1, day = 31\<rparr>
   \<and> strip ''  '' = []
   \<and> update_task 1 None None None None (Some ''  '') None sample_service =
        (Inr (Some (sample_task\<lparr>due_date := None\<rparr>)),
         sample_service\<lparr>storage := mutate (sample_task\<lparr>due_date := None\<rparr>)
                                      (storage sample_service)\<rparr>)
   \<and> (\<exists>task'. get_by_id 1 (storage (snd (update_task 1 (Some ''Buy bread'') None None None
                                            None None sample_service))) = Some task'
         \<and> due_date task' = due_date sample_task
         \<and> description task' = description sample_task
         \<and> priority task' = priority sample_task
         \<and> category task' = category sample_task
         \<and> recurrence task' = recurrence sample_task)"
proof -
  have h1: "get_by_id 1 (storage sample_service) = Some sample_task"
    by (simp add: get_by_id_def sample_service_def sample_task_def)
  have h2: "due_date sample_task = Some \<lparr>year = 2025, month = 1, day = 31\<rparr>"
    by (simp add: sample_task_def)
  have h3: "strip ''  '' = []" by code_simp
  from update_task_keep_or_clear [OF h1, of None None None None "Some ''  ''" None] h3
  have a: "update_task 1 None None None None (Some ''  '') None sample_service =
        (Inr (Some (sample_task\<lparr>due_date := None\<rparr>)),
         sample_service\<lparr>storage := mutate (sample_task\<lparr>due_date := None\<rparr>)
                                      (storage sample_service)\<rparr>)"
    by blast
  from update_task_keep_or_clear [OF h1, of "Some ''Buy bread''" None None None None None]
  have b: "\<exists>task'. get_by_id 1 (storage (snd (update_task 1 (Some ''Buy bread'') None None None
                                            None None sample_service))) = Some task'
         \<and> due_date task' = due_date sample_task
         \<and> description task' = description sample_task
         \<and> priority task' = priority sample_task
         \<and> category task' = category sample_task
         \<and> recurrence task' = recurrence sample_task"
    by blast
  from h1 h2 h3 a b show ?thesis by blast
qed

lemma update_task_clear_stored:
  "get_by_id 1 (storage (snd (update_task 1 None None None None (Some []) None sample_service)))
     = Some (sample_task\<lparr>due_date := None\<rparr>)"
  by code_simp

section \<open>Due date fields\<close>

text \<open>
  A separator with code point 28 after the month digit is removed by \<open>strip\<close> at the
  ends of the input only; inside the input it reaches \<open>int\<close>, which rejects it.
\<close>

lemma validate_due_date_separator_rejected:
  "validate_due_date (''2025-1'' @ [CHR 0x1C] @ ''-01'') = Inl (ValueError ''Invalid date'')
   \<and> validate_due_date ''2025- 1-01'' = Inr (Some \<lparr>year = 2025, month = 1, day = 1\<rparr>)"
  by code_simp

end
